theory Spec2Isabelle
  imports Complex_Main "HOL-Library.Word"
begin

section \<open>Strings of the source language\<close>

text \<open>
  A string of the source is a sequence of 16-bit code units: \<open>length\<close> counts units and
  \<open>charAt\<close> returns the one-unit string at an index (the empty string out of range).
  String literals of the source are all ASCII; \<open>lit\<close> embeds them.
\<close>

type_synonym code_unit = "16 word"
type_synonym js_string = "code_unit list"

definition lit :: "string \<Rightarrow> js_string" where
  "lit s = map (\<lambda>c. of_nat (of_char c)) s"

definition charAt :: "js_string \<Rightarrow> nat \<Rightarrow> js_string" where
  "charAt s idx = (if idx < length s then [s ! idx] else [])"

definition asciiLower :: "code_unit \<Rightarrow> code_unit" where
  "asciiLower u = (if 0x41 \<le> u \<and> u \<le> 0x5A then u + 0x20 else u)"

text \<open>
  \<open>String.prototype.toLowerCase\<close> is a builtin of the platform. On a string of ASCII
  units it maps \<open>A\<close>..\<open>Z\<close> to \<open>a\<close>..\<open>z\<close> and keeps every other unit; on any other string
  it follows the Unicode case tables, which are not part of the repository and are taken
  as the parameter \<open>unicodeLower\<close>.
\<close>

definition toLowerCase :: "(js_string \<Rightarrow> js_string) \<Rightarrow> js_string \<Rightarrow> js_string" where
  "toLowerCase unicodeLower s =
     (if \<forall>u \<in> set s. u < 0x80 then map asciiLower s else unicodeLower s)"

section \<open>The colour table and its lookup\<close>

text \<open>
  \<open>colorList\<close> is an object literal; its own properties are kept in source order. The
  lookup \<open>colorList[key]\<close> is modelled on own properties: every property the object
  inherits from its prototype has a name of seven units or more, and the component only
  looks up the lower-case form of a result of \<open>charAt\<close>, which is shorter.
\<close>

definition colorList :: "(js_string \<times> js_string) list" where
  "colorList =
    [(lit ''a'', lit ''#00000000''),
     (lit ''b'', lit ''#00000000''),
     (lit ''c'', lit ''#00000000''),
     (lit ''d'', lit ''#0000FF''),
     (lit ''e'', lit ''#0033FF''),
     (lit ''f'', lit ''#0066FF''),
     (lit ''g'', lit ''#0099FF''),
     (lit ''h'', lit ''#00CCFF''),
     (lit ''i'', lit ''#00FF99''),
     (lit ''j'', lit ''#00FF66''),
     (lit ''k'', lit ''#44FF00''),
     (lit ''l'', lit ''#88FF00''),
     (lit ''m'', lit ''#CCFF00''),
     (lit ''n'', lit ''#FFFF00''),
     (lit ''o'', lit ''#FFCC00''),
     (lit ''p'', lit ''#FF9900''),
     (lit ''q'', lit ''#FF6600''),
     (lit ''r'', lit ''#FF3300''),
     (lit ''s'', lit ''#FF0000''),
     (lit ''t'', lit ''#CC0000''),
     (lit ''u'', lit ''#990000''),
     (lit ''v'', lit ''#660000''),
     (lit ''w'', lit ''#330000''),
     (lit ''x'', lit ''#331A1A''),
     (lit ''y'', lit ''#663333''),
     (lit ''z'', lit ''#993333'')]"

text \<open>
  \<open>colorList[ch.toLowerCase()] || "#b00201"\<close>: the right operand is taken when the left
  one is undefined (no such property) or the empty string.
\<close>

definition convertStringToColor :: "(js_string \<Rightarrow> js_string) \<Rightarrow> js_string \<Rightarrow> js_string" where
  "convertStringToColor unicodeLower ch =
     (case map_of colorList (toLowerCase unicodeLower ch) of
        None \<Rightarrow> lit ''#b00201''
      | Some c \<Rightarrow> if c = [] then lit ''#b00201'' else c)"

section \<open>Snapshots, station lists and the overlay\<close>

text \<open>
  Modelled from the spec: the type declarations \<open>KmoniData\<close> and \<open>SiteListData\<close> of
  \<open>@/types/types\<close> are not among the sources. A snapshot is a record with an optional
  \<open>realTimeData\<close> member, which has an optional string of intensity codes and an optional
  timestamp, as the optional chains \<open>kmoniData?.realTimeData?.intensity\<close> and
  \<open>data.realTimeData?.timestamp\<close> of the component read them. A station list is a
  sequence of (latitude, longitude) pairs.
\<close>

record RealTimeData =
  intensity :: "js_string option"
  timestamp :: "js_string option"

record KmoniData =
  realTimeData :: "RealTimeData option"

type_synonym PointList = "(real \<times> real) list"

record Point =
  gtype :: string
  coordinates :: "real list"

record Properties =
  color :: js_string
  radius :: nat

record Feature =
  ftype :: string
  geometry :: Point
  properties :: Properties

record FeatureCollection =
  ctype :: string
  features :: "Feature list"

text \<open>The optional chain \<open>kmoniData?.realTimeData?.intensity\<close>.\<close>

definition intensityOf :: "KmoniData option \<Rightarrow> js_string option" where
  "intensityOf kmoniData =
     (case kmoniData of
        None \<Rightarrow> None
      | Some k \<Rightarrow> (case realTimeData k of None \<Rightarrow> None | Some r \<Rightarrow> intensity r))"

text \<open>
  The body of the \<open>for\<close> loop of \<open>siteGeoJSON\<close>, from index \<open>idx\<close> on, with the array
  \<open>features\<close> passed along. Inside the loop \<open>idx < maxPoints \<le> pointList.length\<close>, so
  the read \<open>pointList[idx]\<close> is in range.
\<close>

function siteLoop ::
  "(js_string \<Rightarrow> js_string) \<Rightarrow> PointList \<Rightarrow> js_string \<Rightarrow> nat \<Rightarrow> nat \<Rightarrow> Feature list \<Rightarrow> Feature list"
where
  "siteLoop unicodeLower pointList intensityStr maxPoints idx feats =
     (if idx < maxPoints then
        (case pointList ! idx of (lat, lng) \<Rightarrow>
           let char = charAt intensityStr idx in
           if char = lit ''a'' \<or> char = lit ''b'' \<or> char = lit ''c'' then
             siteLoop unicodeLower pointList intensityStr maxPoints (idx + 1) feats
           else
             siteLoop unicodeLower pointList intensityStr maxPoints (idx + 1)
               (feats @
                 [\<lparr>ftype = ''Feature'',
                   geometry = \<lparr>gtype = ''Point'', coordinates = [lng, lat]\<rparr>,
                   properties = \<lparr>color = convertStringToColor unicodeLower char, radius = 3\<rparr>\<rparr>]))
      else feats)"
  by pat_completeness auto
termination
  by (relation "measure (\<lambda>(u, p, s, maxPoints, idx, f). maxPoints - idx)") auto

text \<open>A string or undefined is falsy when it is undefined or the empty string.\<close>

definition falsy :: "js_string option \<Rightarrow> bool" where
  "falsy v = (case v of None \<Rightarrow> True | Some str \<Rightarrow> str = [])"

definition siteGeoJSON ::
  "(js_string \<Rightarrow> js_string) \<Rightarrow> bool \<Rightarrow> KmoniData option \<Rightarrow> PointList \<Rightarrow> FeatureCollection"
where
  "siteGeoJSON unicodeLower enableKyoshinMonitor kmoniData pointList =
     (if \<not> enableKyoshinMonitor \<or> falsy (intensityOf kmoniData) \<or> length pointList = 0 then
        \<lparr>ctype = ''FeatureCollection'', features = []\<rparr>
      else
        (case intensityOf kmoniData of
           None \<Rightarrow> \<lparr>ctype = ''FeatureCollection'', features = []\<rparr>
         | Some intensityStr \<Rightarrow>
             \<lparr>ctype = ''FeatureCollection'',
               features = siteLoop unicodeLower pointList intensityStr
                            (min (length pointList) (length intensityStr)) 0 []\<rparr>))"

text \<open>
  Vocabulary for the properties of the overlay: the code sequence of a snapshot (empty
  when the snapshot has none), the three codes the loop skips (the units of \<open>a\<close>,
  \<open>b\<close>, \<open>c\<close>), the indices in range whose code is not skipped, in ascending order, and
  the feature built at an index.
\<close>

definition codes :: "KmoniData \<Rightarrow> js_string" where
  "codes k = (case intensityOf (Some k) of None \<Rightarrow> [] | Some str \<Rightarrow> str)"

definition noData :: "code_unit set" where
  "noData = {0x61, 0x62, 0x63}"

definition emitted :: "PointList \<Rightarrow> js_string \<Rightarrow> nat list" where
  "emitted S K = filter (\<lambda>i. K ! i \<notin> noData) [0..<min (length S) (length K)]"

definition featureAt :: "(js_string \<Rightarrow> js_string) \<Rightarrow> PointList \<Rightarrow> js_string \<Rightarrow> nat \<Rightarrow> Feature" where
  "featureAt unicodeLower S K i =
     \<lparr>ftype = ''Feature'',
      geometry = \<lparr>gtype = ''Point'', coordinates = [snd (S ! i), fst (S ! i)]\<rparr>,
      properties = \<lparr>color = convertStringToColor unicodeLower [K ! i], radius = 3\<rparr>\<rparr>"

section \<open>The snapshot poller\<close>

text \<open>
  The module-level object \<open>kyoshinDataCache\<close> is shared by every instance of the
  component. Its member \<open>abortController\<close> holds a reference to a controller object (or
  null); controllers are numbered in order of creation. Beside the cache, \<open>Shared\<close>
  carries what the platform keeps for the calls of the poller: the controllers whose
  \<open>abort()\<close> has run, the allocation counter of \<open>new AbortController()\<close>, the armed
  five-second timeouts (named by the controller created next to them) and the log of the
  calls to \<open>fetch\<close>, each with its controller and the target time its URL is built from.
\<close>

record Shared =
  pointList :: "PointList option"
  lastFetchedTime :: int
  abortController :: "nat option"
  aborted :: "nat set"
  nextController :: nat
  timers :: "nat set"
  requests :: "(nat \<times> int) list"

text \<open>
  An asynchronous call of \<open>fetchKyoshinMonitorData\<close> that has issued its request is
  suspended at one of its two \<open>await\<close>s until the platform resumes it.
\<close>

datatype Phase = AwaitFetch | AwaitJson

text \<open>
  The state of one mounted instance: the ref \<open>lastFetchTime\<close>, the state variable
  \<open>kmoniData\<close>, the ref \<open>isMountedRef\<close>, the suspended calls of its poller (named by
  their controllers) and the callbacks it has handed to \<open>requestAnimationFrame\<close> that
  have not run yet (each named by the snapshot it will store).
\<close>

record Instance =
  lastFetchTime :: int
  kmoniData :: "KmoniData option"
  isMounted :: bool
  suspended :: "(nat \<times> Phase) list"
  frames :: "KmoniData list"

text \<open>What an \<open>await\<close> can throw when it resumes.\<close>

datatype Exn = AbortError | OtherError

text \<open>
  The first render of an instance: \<open>useRef(kyoshinDataCache.lastFetchedTime)\<close>,
  \<open>useState(null)\<close>, \<open>useRef(true)\<close>.
\<close>

definition mount :: "Shared \<Rightarrow> Instance" where
  "mount w = \<lparr>lastFetchTime = lastFetchedTime w, kmoniData = None, isMounted = True,
              suspended = [], frames = []\<rparr>"

text \<open>
  \<open>fetchKyoshinMonitorData\<close> from its call to its first \<open>await\<close>. The argument is the
  content of \<open>nowAppTimeRef.current\<close> (application time in milliseconds, or nothing); a
  missing or zero time is falsy. Nothing in this segment throws: the URL is built from
  date getters and \<open>fetch\<close> reports every failure through its promise.
\<close>

definition fetchKyoshinMonitorData :: "int option \<Rightarrow> Instance \<times> Shared \<Rightarrow> Instance \<times> Shared" where
  "fetchKyoshinMonitorData nowAppTime s =
     (case s of (inst, w) \<Rightarrow>
        (case nowAppTime of
           None \<Rightarrow> (inst, w)
         | Some now \<Rightarrow>
             if now = 0 then (inst, w)
             else if now - lastFetchTime inst < 500 then (inst, w)
             else
               let inst1 = inst\<lparr>lastFetchTime := now\<rparr>;
                   w1 = w\<lparr>lastFetchedTime := now\<rparr>;
                   w2 = (case abortController w1 of
                           Some c \<Rightarrow> w1\<lparr>aborted := insert c (aborted w1)\<rparr>
                         | None \<Rightarrow> w1);
                   target = now - 2000;
                   c = nextController w2;
                   w3 = w2\<lparr>nextController := c + 1, abortController := Some c\<rparr>;
                   w4 = w3\<lparr>timers := insert c (timers w3)\<rparr>;
                   w5 = w4\<lparr>requests := requests w4 @ [(c, target)]\<rparr>
               in (inst1\<lparr>suspended := suspended inst1 @ [(c, AwaitFetch)]\<rparr>, w5)))"

text \<open>
  The \<open>catch\<close> clause only writes to the console. The \<open>finally\<close> clause stores null
  in the shared handle, whichever controller the handle holds, and the call is over.
\<close>

definition catchClause :: "Exn \<Rightarrow> Instance \<times> Shared \<Rightarrow> Instance \<times> Shared" where
  "catchClause err s = s"

definition finallyClause :: "nat \<Rightarrow> Instance \<times> Shared \<Rightarrow> Instance \<times> Shared" where
  "finallyClause c s =
     (case s of (inst, w) \<Rightarrow>
        (inst\<lparr>suspended := filter (\<lambda>(d, p). d \<noteq> c) (suspended inst)\<rparr>,
         w\<lparr>abortController := None\<rparr>))"

text \<open>
  The call that created controller \<open>c\<close> resumes at \<open>await fetch(...)\<close>. The platform
  supplies the outcome: a rejection, or a response with its \<open>ok\<close> flag; the promise of an
  aborted controller rejects with \<open>AbortError\<close>. The result is \<open>Inl\<close> when an exception
  leaves the routine. A rejection skips \<open>clearTimeout\<close>, so the timeout stays armed.
\<close>

definition resumeFetch ::
  "nat \<Rightarrow> Exn + bool \<Rightarrow> Instance \<times> Shared \<Rightarrow> Exn + Instance \<times> Shared"
where
  "resumeFetch c res s =
     (case s of (inst, w) \<Rightarrow>
        if (c, AwaitFetch) \<notin> set (suspended inst) then Inr (inst, w)
        else
          (case (if c \<in> aborted w then Inl AbortError else res) of
             Inl err \<Rightarrow> Inr (finallyClause c (catchClause err (inst, w)))
           | Inr ok \<Rightarrow>
               let w1 = w\<lparr>timers := timers w - {c}\<rparr> in
               if \<not> ok then Inr (finallyClause c (inst, w1))
               else Inr (inst\<lparr>suspended :=
                                 map (\<lambda>(d, p). if d = c then (d, AwaitJson) else (d, p))
                                   (suspended inst)\<rparr>, w1)))"

text \<open>
  The call resumes at \<open>await res.json()\<close>: a rejection (a parse error, or the abort of
  its controller), or the parsed snapshot, which a mounted instance hands to
  \<open>requestAnimationFrame\<close>.
\<close>

definition resumeJson ::
  "nat \<Rightarrow> Exn + KmoniData \<Rightarrow> Instance \<times> Shared \<Rightarrow> Exn + Instance \<times> Shared"
where
  "resumeJson c res s =
     (case s of (inst, w) \<Rightarrow>
        if (c, AwaitJson) \<notin> set (suspended inst) then Inr (inst, w)
        else
          (case (if c \<in> aborted w then Inl AbortError else res) of
             Inl err \<Rightarrow> Inr (finallyClause c (catchClause err (inst, w)))
           | Inr data \<Rightarrow>
               if isMounted inst then
                 Inr (finallyClause c (inst\<lparr>frames := frames inst @ [data]\<rparr>, w))
               else Inr (finallyClause c (inst, w))))"

text \<open>
  The timeout armed next to controller \<open>c\<close> fires: it aborts the controller the shared
  handle holds at that moment, if any.
\<close>

definition timeoutFires :: "nat \<Rightarrow> Instance \<times> Shared \<Rightarrow> Instance \<times> Shared" where
  "timeoutFires c s =
     (case s of (inst, w) \<Rightarrow>
        if c \<notin> timers w then (inst, w)
        else
          let w1 = w\<lparr>timers := timers w - {c}\<rparr> in
          (case abortController w1 of
             Some d \<Rightarrow> (inst, w1\<lparr>aborted := insert d (aborted w1)\<rparr>)
           | None \<Rightarrow> (inst, w1)))"

text \<open>
  The next animation frame runs the scheduled callbacks in order; each stores its
  snapshot with \<open>setKmoniData\<close> (and reports a time to the host's \<open>onTimeUpdate\<close>, which
  is outside the component).
\<close>

definition animationFrame :: "Instance \<times> Shared \<Rightarrow> Instance \<times> Shared" where
  "animationFrame s =
     (case s of (inst, w) \<Rightarrow>
        (inst\<lparr>kmoniData := foldl (\<lambda>cur data. Some data) (kmoniData inst) (frames inst),
              frames := []\<rparr>, w))"

text \<open>
  The cleanups of the instance's effects at unmount: the mounted flag is cleared, the
  controller in the shared handle is aborted and the handle is set to null. (When the
  monitor is only disabled, the cleanup of the polling effect aborts and empties the
  handle in the same way but leaves the mounted flag set; that case is not \<open>unmount\<close>.)
\<close>

definition unmount :: "Instance \<times> Shared \<Rightarrow> Instance \<times> Shared" where
  "unmount s =
     (case s of (inst, w) \<Rightarrow>
        (inst\<lparr>isMounted := False\<rparr>,
         (case abortController w of
            Some c \<Rightarrow> w\<lparr>aborted := insert c (aborted w), abortController := None\<rparr>
          | None \<Rightarrow> w)))"

text \<open>What can happen to an instance, and a run of such events from a state.\<close>

datatype Event =
    Tick "int option"
  | Unmount
  | FetchSettles nat "Exn + bool"
  | JsonSettles nat "Exn + KmoniData"
  | TimeoutFires nat
  | AnimationFrame

fun step :: "Event \<Rightarrow> Instance \<times> Shared \<Rightarrow> Instance \<times> Shared" where
  "step (Tick nowAppTime) s = fetchKyoshinMonitorData nowAppTime s"
| "step (FetchSettles c res) s = (case resumeFetch c res s of Inl err \<Rightarrow> s | Inr s' \<Rightarrow> s')"
| "step (JsonSettles c res) s = (case resumeJson c res s of Inl err \<Rightarrow> s | Inr s' \<Rightarrow> s')"
| "step (TimeoutFires c) s = timeoutFires c s"
| "step AnimationFrame s = animationFrame s"
| "step Unmount s = unmount s"

fun run :: "Event list \<Rightarrow> Instance \<times> Shared \<Rightarrow> Instance \<times> Shared" where
  "run [] s = s"
| "run (e # es) s = run es (step e s)"

fun isTick :: "Event \<Rightarrow> bool" where
  "isTick (Tick nowAppTime) = True"
| "isTick e = False"

text \<open>
  The requests in flight: issued by a call that is still suspended, and not aborted.
\<close>

definition inFlight :: "Instance \<times> Shared \<Rightarrow> nat list" where
  "inFlight s = (case s of (inst, w) \<Rightarrow> filter (\<lambda>c. c \<notin> aborted w) (map fst (suspended inst)))"

text \<open>The module as loaded: an empty cache, no controller created yet.\<close>

definition initialShared :: Shared where
  "initialShared = \<lparr>pointList = None, lastFetchedTime = 0, abortController = None,
                     aborted = {}, nextController = 0, timers = {}, requests = []\<rparr>"

section \<open>Properties of the overlay\<close>

declare siteLoop.simps [simp del]

lemma charAt_in: "idx < length K \<Longrightarrow> charAt K idx = [K ! idx]" by (simp add: charAt_def)

lemma skip_iff:
  "idx < length K \<Longrightarrow>
   (charAt K idx = lit ''a'' \<or> charAt K idx = lit ''b'' \<or> charAt K idx = lit ''c'') = (K ! idx \<in> noData)"
  by (auto simp add: charAt_def lit_def noData_def)

lemma siteLoop_eq:
  "m \<le> length K \<Longrightarrow>
   siteLoop ul S K m idx fs = fs @ map (featureAt ul S K) (filter (\<lambda>i. K ! i \<notin> noData) [idx..<m])"
proof (induction ul S K m idx fs rule: siteLoop.induct)
  case (1 ul S K m idx fs)
  show ?case
  proof (cases "idx < m")
    case False
    then show ?thesis by (simp add: siteLoop.simps)
  next
    case True
    then have inK: "idx < length K" using "1.prems" by simp
    obtain lat lng where p: "S ! idx = (lat, lng)" by (cases "S ! idx")
    have up: "[idx..<m] = idx # [idx + 1..<m]" using True by (simp add: upt_conv_Cons)
    show ?thesis
    proof (cases "K ! idx \<in> noData")
      case False
      then have c: "\<not> (charAt K idx = lit ''a'' \<or> charAt K idx = lit ''b'' \<or> charAt K idx = lit ''c'')"
        using skip_iff[OF inK] by simp
      have f: "\<lparr>ftype = ''Feature'',
                geometry = \<lparr>gtype = ''Point'', coordinates = [lng, lat]\<rparr>,
                properties = \<lparr>color = convertStringToColor ul (charAt K idx), radius = 3\<rparr>\<rparr>
               = featureAt ul S K idx"
        using p inK by (simp add: featureAt_def charAt_in)
      have "siteLoop ul S K m idx fs = siteLoop ul S K m (idx + 1) (fs @ [featureAt ul S K idx])"
        using True p c by (subst siteLoop.simps) (simp add: Let_def f)
      also have "\<dots> = (fs @ [featureAt ul S K idx]) @
                       map (featureAt ul S K) (filter (\<lambda>i. K ! i \<notin> noData) [idx + 1..<m])"
        using "1.IH"(2)[OF True p[symmetric] refl c "1.prems"] by (simp only: f)
      finally show ?thesis using False by (subst up) simp
    next
      case True
      then have c: "charAt K idx = lit ''a'' \<or> charAt K idx = lit ''b'' \<or> charAt K idx = lit ''c''"
        using skip_iff[OF inK] by simp
      have "siteLoop ul S K m idx fs = siteLoop ul S K m (idx + 1) fs"
        using \<open>idx < m\<close> p c by (subst siteLoop.simps) (simp add: Let_def)
      also have "\<dots> = fs @ map (featureAt ul S K) (filter (\<lambda>i. K ! i \<notin> noData) [idx + 1..<m])"
        using "1.IH"(1)[OF \<open>idx < m\<close> p[symmetric] refl c "1.prems"] .
      finally show ?thesis using True by (subst up) simp
    qed
  qed
qed

lemma features_eq:
  assumes "en" and "intensityOf kmoni = Some K"
  shows "features (siteGeoJSON ul en kmoni S) = map (featureAt ul S K) (emitted S K)"
proof (cases "K = [] \<or> S = []")
  case True
  then show ?thesis using assms by (auto simp add: siteGeoJSON_def falsy_def emitted_def)
next
  case False
  then show ?thesis using assms by (simp add: siteGeoJSON_def falsy_def emitted_def siteLoop_eq)
qed

lemma features_codes:
  assumes "en"
  shows "features (siteGeoJSON ul en (Some k) S) = map (featureAt ul S (codes k)) (emitted S (codes k))"
proof (cases "intensityOf (Some k)")
  case None
  then show ?thesis by (simp add: siteGeoJSON_def falsy_def codes_def emitted_def)
next
  case (Some K)
  then show ?thesis using features_eq[OF assms Some] by (simp add: codes_def)
qed

lemma length_emitted:
  "length (emitted S K) = card {i. i < min (length S) (length K) \<and> K ! i \<notin> noData}"
proof -
  have "length (emitted S K) = card {i. i < length [0..<min (length S) (length K)] \<and> K ! ([0..<min (length S) (length K)] ! i) \<notin> noData}"
    unfolding emitted_def by (rule length_filter_conv_card)
  also have "{i. i < length [0..<min (length S) (length K)] \<and> K ! ([0..<min (length S) (length K)] ! i) \<notin> noData}
           = {i. i < min (length S) (length K) \<and> K ! i \<notin> noData}"
    by auto
  finally show ?thesis .
qed

lemma letter_cases:
  fixes l :: code_unit
  assumes "0x61 \<le> l" "l \<le> 0x7A"
  shows "l \<in> of_nat ` {97..<123}"
proof -
  have "97 \<le> unat l" "unat l \<le> 122" using assms by (simp_all add: word_le_nat_alt)
  then have "unat l \<in> {97..<123}" by simp
  then have "of_nat (unat l) \<in> (of_nat ` {97..<123} :: code_unit set)" by (rule imageI)
  then show ?thesis by simp
qed

lemma letters_enum: "{97..<123::nat} = set [97..<123]" by (rule atLeastLessThan_upt)

lemma table_letter:
  fixes l :: code_unit
  assumes "0x61 \<le> l" "l \<le> 0x7A"
  shows "\<exists>c. map_of colorList [l] = Some c \<and> c \<noteq> []"
proof -
  have "\<forall>n \<in> set [97..<123]. \<exists>c. map_of colorList [of_nat n :: code_unit] = Some c \<and> c \<noteq> []"
    by (simp add: upt_rec_numeral colorList_def lit_def)
  then show ?thesis using letter_cases[OF assms] unfolding letters_enum by blast
qed

lemma table_keys:
  assumes "map_of colorList key = Some c"
  shows "\<exists>l. key = [l] \<and> 0x61 \<le> l \<and> l \<le> 0x7A"
proof -
  have "(key, c) \<in> set colorList" using assms by (rule map_of_SomeD)
  then have "key \<in> fst ` set colorList" by force
  then show ?thesis by (auto simp add: colorList_def lit_def)
qed

lemma lower_upper:
  fixes u :: code_unit
  assumes "0x41 \<le> u" "u \<le> 0x5A"
  shows "toLowerCase ul [u] = [u + 0x20]" and "toLowerCase ul [u + 0x20] = [u + 0x20]"
proof -
  have n: "65 \<le> unat u" "unat u \<le> 90" using assms by (simp_all add: word_le_nat_alt)
  have "unat u + unat (0x20 :: code_unit) < 2 ^ LENGTH(16)" using n by simp
  then have s: "unat (u + 0x20) = unat u + 32" by (simp add: unat_add_lem[THEN iffD1])
  have a: "u < 0x80" using n by (simp add: word_less_nat_alt)
  have b: "u + 0x20 < 0x80" using n s by (simp add: word_less_nat_alt)
  have c: "\<not> (u + 0x20 \<le> 0x5A)" using n s by (simp add: word_le_nat_alt)
  show "toLowerCase ul [u] = [u + 0x20]" using assms a by (simp add: toLowerCase_def asciiLower_def)
  show "toLowerCase ul [u + 0x20] = [u + 0x20]" using b c by (simp add: toLowerCase_def asciiLower_def)
qed

lemma color_defined:
  "convertStringToColor ul ch \<in> snd ` set colorList \<union> {lit ''#b00201''}"
proof (cases "map_of colorList (toLowerCase ul ch)")
  case None
  then show ?thesis by (simp add: convertStringToColor_def)
next
  case (Some c)
  then have "(toLowerCase ul ch, c) \<in> set colorList" by (rule map_of_SomeD)
  then have "c \<in> snd ` set colorList" by force
  then show ?thesis using Some by (simp add: convertStringToColor_def)
qed

lemma emitted_split:
  assumes "i < length S" "i < length K" "K ! i \<notin> noData"
  shows "emitted S K = filter (\<lambda>j. K ! j \<notin> noData) [0..<i] @
                        i # filter (\<lambda>j. K ! j \<notin> noData) [Suc i..<min (length S) (length K)]"
proof -
  let ?m = "min (length S) (length K)"
  have lt: "i < ?m" using assms by simp
  then obtain k where k: "?m = i + k" using le_Suc_ex[of i ?m] by auto
  have "[0..<i + k] = [0..<i] @ [i..<i + k]" by (rule upt_add_eq_append) simp
  then have "[0..<?m] = [0..<i] @ [i..<?m]" using k by simp
  moreover have "[i..<?m] = i # [Suc i..<?m]" using lt by (rule upt_conv_Cons)
  ultimately have "[0..<?m] = [0..<i] @ i # [Suc i..<?m]" by simp
  then show ?thesis using assms(3) by (simp add: emitted_def)
qed

lemma length_filter_below:
  "length (filter P [0..<i]) = card {j. j < i \<and> P j}"
proof -
  have "length (filter P [0..<i]) = card {j. j < length [0..<i] \<and> P ([0..<i] ! j)}"
    by (rule length_filter_conv_card)
  also have "{j. j < length [0..<i] \<and> P ([0..<i] ! j)} = {j. j < i \<and> P j}" by auto
  finally show ?thesis .
qed

lemma upper_abc_color:
  fixes u :: code_unit
  assumes "u \<in> {0x41, 0x42, 0x43}"
  shows "convertStringToColor ul [u] = lit ''#00000000''"
proof -
  have "\<forall>v \<in> {0x41, 0x42, 0x43 :: code_unit}. convertStringToColor ul [v] = lit ''#00000000''"
    by (simp add: convertStringToColor_def toLowerCase_def asciiLower_def colorList_def lit_def)
  then show ?thesis using assms by blast
qed

section \<open>The claims about the overlay\<close>

text \<open>
  C1. With the monitor enabled, for every station list and every snapshot, the overlay
  has one feature for each index below the shorter of the two lengths whose code is not
  one of the three skipped codes, and no other feature: the number of features is the
  number of such indices, and every feature is a point feature.
\<close>

theorem overlay_feature_count:
  assumes "en"
  shows "length (features (siteGeoJSON ul en (Some k) S)) =
           card {i. i < min (length S) (length (codes k)) \<and> codes k ! i \<notin> {0x61, 0x62, 0x63}}
         \<and> (\<forall>f \<in> set (features (siteGeoJSON ul en (Some k) S)).
              ftype f = ''Feature'' \<and> gtype (geometry f) = ''Point'')"
proof
  show "length (features (siteGeoJSON ul en (Some k) S)) =
           card {i. i < min (length S) (length (codes k)) \<and> codes k ! i \<notin> {0x61, 0x62, 0x63}}"
    using length_emitted[of S "codes k"] by (simp add: features_codes[OF assms] noData_def)
  show "\<forall>f \<in> set (features (siteGeoJSON ul en (Some k) S)).
              ftype f = ''Feature'' \<and> gtype (geometry f) = ''Point''"
    by (auto simp add: features_codes[OF assms] featureAt_def)
qed

theorem overlay_feature_count_witness:
  "length (features (siteGeoJSON (\<lambda>s. s) True
              (Some \<lparr>realTimeData = Some \<lparr>intensity = Some (lit ''sad''), timestamp = None\<rparr>\<rparr>)
              [(35, 139), (34, 135), (36, 140)])) = 2
   \<and> card {i. i < min (length [(35::real, 139::real), (34, 135), (36, 140)])
                       (length (codes \<lparr>realTimeData = Some \<lparr>intensity = Some (lit ''sad''), timestamp = None\<rparr>\<rparr>))
               \<and> codes \<lparr>realTimeData = Some \<lparr>intensity = Some (lit ''sad''), timestamp = None\<rparr>\<rparr> ! i
                   \<notin> {0x61, 0x62, 0x63}} = 2"
  using overlay_feature_count [of True "\<lambda>s. s"
          "\<lparr>realTimeData = Some \<lparr>intensity = Some (lit ''sad''), timestamp = None\<rparr>\<rparr>"
          "[(35, 139), (34, 135), (36, 140)]"]
  by (simp add: siteGeoJSON_def falsy_def intensityOf_def lit_def siteLoop.simps charAt_def)

text \<open>
  C2. With the monitor enabled, the features of the overlay are, in order, those of the
  emitted indices, and the geometry of the feature of index \<open>i\<close> has the coordinates
  [longitude, latitude] of the station entry (latitude, longitude) at index \<open>i\<close>.
\<close>

theorem overlay_coordinates_inverted:
  assumes "en"
  shows "map (\<lambda>f. coordinates (geometry f)) (features (siteGeoJSON ul en (Some k) S)) =
         map (\<lambda>i. [snd (S ! i), fst (S ! i)]) (emitted S (codes k))"
  by (simp add: features_codes[OF assms] featureAt_def comp_def)

theorem overlay_coordinates_inverted_witness:
  "map (\<lambda>f. coordinates (geometry f)) (features (siteGeoJSON (\<lambda>s. s) True
              (Some \<lparr>realTimeData = Some \<lparr>intensity = Some (lit ''sad''), timestamp = None\<rparr>\<rparr>)
              [(35, 139), (34, 135), (36, 140)])) = [[139, 35], [140, 36]]
   \<and> emitted [(35, 139), (34, 135), (36, 140)]
        (codes \<lparr>realTimeData = Some \<lparr>intensity = Some (lit ''sad''), timestamp = None\<rparr>\<rparr>) = [0, 2]"
  using overlay_coordinates_inverted [of True "\<lambda>s. s"
          "\<lparr>realTimeData = Some \<lparr>intensity = Some (lit ''sad''), timestamp = None\<rparr>\<rparr>"
          "[(35, 139), (34, 135), (36, 140)]"]
  by (simp add: emitted_def codes_def intensityOf_def lit_def noData_def upt_rec_numeral)

text \<open>
  C3. The colour lookup returns a colour for every single character (a string of one
  unit, as \<open>charAt\<close> yields, or of the two units of a surrogate pair): when the
  lower-case form of the string is one of the letters \<open>a\<close> to \<open>z\<close> the result is the
  entry of that letter in the table, otherwise it is the fallback colour, and the result
  is always an entry of the table or the fallback. An upper-case letter \<open>A\<close> to \<open>Z\<close>
  lower-cases to its lower-case letter and has the same colour as that letter. The lookup
  has no failing branch: lower-casing and reading a property do not throw.
\<close>

theorem color_lookup_total_case_insensitive:
  fixes u :: code_unit and ch :: js_string
  shows "(length ch \<le> 2 \<longrightarrow>
            (\<forall>l. 0x61 \<le> l \<and> l \<le> 0x7A \<and> toLowerCase ul ch = [l] \<longrightarrow>
                 map_of colorList [l] = Some (convertStringToColor ul ch))
          \<and> ((\<nexists>l. 0x61 \<le> l \<and> l \<le> 0x7A \<and> toLowerCase ul ch = [l]) \<longrightarrow>
                 convertStringToColor ul ch = lit ''#b00201'')
          \<and> convertStringToColor ul ch \<in> snd ` set colorList \<union> {lit ''#b00201''})
       \<and> (0x41 \<le> u \<and> u \<le> 0x5A \<longrightarrow>
              toLowerCase ul [u] = [u + 0x20]
            \<and> convertStringToColor ul [u] = convertStringToColor ul [u + 0x20])"
proof (intro conjI allI impI)
  fix l :: code_unit
  assume h: "0x61 \<le> l \<and> l \<le> 0x7A \<and> toLowerCase ul ch = [l]"
  then obtain c where "map_of colorList [l] = Some c" "c \<noteq> []" using table_letter by blast
  then show "map_of colorList [l] = Some (convertStringToColor ul ch)"
    using h by (simp add: convertStringToColor_def)
next
  assume h: "\<nexists>l. 0x61 \<le> l \<and> l \<le> 0x7A \<and> toLowerCase ul ch = [l]"
  have "map_of colorList (toLowerCase ul ch) = None"
  proof (cases "map_of colorList (toLowerCase ul ch)")
    case (Some c)
    then show ?thesis using table_keys[OF Some] h by blast
  qed simp
  then show "convertStringToColor ul ch = lit ''#b00201''" by (simp add: convertStringToColor_def)
next
  show "convertStringToColor ul ch \<in> snd ` set colorList \<union> {lit ''#b00201''}" by (rule color_defined)
next
  assume h: "0x41 \<le> u \<and> u \<le> 0x5A"
  then show "toLowerCase ul [u] = [u + 0x20]" using lower_upper(1) by blast
next
  assume h: "0x41 \<le> u \<and> u \<le> 0x5A"
  then have "toLowerCase ul [u] = toLowerCase ul [u + 0x20]" using lower_upper[of u ul] by simp
  then show "convertStringToColor ul [u] = convertStringToColor ul [u + 0x20]"
    by (simp add: convertStringToColor_def)
qed

theorem color_lookup_total_case_insensitive_witness:
  "convertStringToColor (\<lambda>s. s) [0x53] = lit ''#FF0000''
   \<and> convertStringToColor (\<lambda>s. s) [0x73] = lit ''#FF0000''
   \<and> convertStringToColor (\<lambda>s. s) [0x31] = lit ''#b00201''"
proof -
  have a: "toLowerCase (\<lambda>s. s) [0x53] = [0x73]" by (simp add: toLowerCase_def asciiLower_def)
  have b: "toLowerCase (\<lambda>s. s) [0x31] = [0x31]" by (simp add: toLowerCase_def asciiLower_def)
  have c: "map_of colorList [0x73 :: code_unit] = Some (lit ''#FF0000'')" by (simp add: colorList_def lit_def)
  have "convertStringToColor (\<lambda>s. s) [0x53] = lit ''#FF0000''"
    using color_lookup_total_case_insensitive [of "[0x53]" "\<lambda>s. s" "0x53"] a c by simp
  moreover have "convertStringToColor (\<lambda>s. s) [0x53] = convertStringToColor (\<lambda>s. s) [0x73]"
    using color_lookup_total_case_insensitive [of "[0x53]" "\<lambda>s. s" "0x53"] by simp
  moreover have "convertStringToColor (\<lambda>s. s) [0x31] = lit ''#b00201''"
    using color_lookup_total_case_insensitive [of "[0x31]" "\<lambda>s. s" "0x31"] b by simp
  ultimately show ?thesis by simp
qed

text \<open>
  C4. The overlay is the empty feature collection when the monitor is disabled, when no
  snapshot has been received, when the snapshot has no intensity code sequence, or when
  the station list is empty.
\<close>

theorem overlay_empty_when_idle:
  assumes "\<not> en \<or> kmoni = None \<or> intensityOf kmoni = None \<or> S = []"
  shows "siteGeoJSON ul en kmoni S = \<lparr>ctype = ''FeatureCollection'', features = []\<rparr>"
  using assms by (auto simp add: siteGeoJSON_def falsy_def intensityOf_def split: option.splits)

theorem overlay_empty_when_idle_witness:
  "siteGeoJSON (\<lambda>s. s) False (Some \<lparr>realTimeData = Some \<lparr>intensity = Some (lit ''sad''), timestamp = None\<rparr>\<rparr>) [(35, 139), (34, 135), (36, 140)]
     = \<lparr>ctype = ''FeatureCollection'', features = []\<rparr>
   \<and> siteGeoJSON (\<lambda>s. s) True None [(35, 139), (34, 135), (36, 140)]
     = \<lparr>ctype = ''FeatureCollection'', features = []\<rparr>
   \<and> siteGeoJSON (\<lambda>s. s) True (Some \<lparr>realTimeData = None\<rparr>) [(35, 139), (34, 135), (36, 140)]
     = \<lparr>ctype = ''FeatureCollection'', features = []\<rparr>
   \<and> siteGeoJSON (\<lambda>s. s) True (Some \<lparr>realTimeData = Some \<lparr>intensity = Some (lit ''sad''), timestamp = None\<rparr>\<rparr>) []
     = \<lparr>ctype = ''FeatureCollection'', features = []\<rparr>"
  using overlay_empty_when_idle [of False "Some \<lparr>realTimeData = Some \<lparr>intensity = Some (lit ''sad''), timestamp = None\<rparr>\<rparr>" "[(35, 139), (34, 135), (36, 140)]" "\<lambda>s. s"]
    overlay_empty_when_idle [of True None "[(35, 139), (34, 135), (36, 140)]" "\<lambda>s. s"]
    overlay_empty_when_idle [of True "Some \<lparr>realTimeData = None\<rparr>" "[(35, 139), (34, 135), (36, 140)]" "\<lambda>s. s"]
    overlay_empty_when_idle [of True "Some \<lparr>realTimeData = Some \<lparr>intensity = Some (lit ''sad''), timestamp = None\<rparr>\<rparr>" "[]" "\<lambda>s. s"]
  by (simp add: intensityOf_def)

text \<open>
  C5. For the station list [[35.0,139.0],[34.0,135.0]] and a snapshot with the code
  string "sd", the enabled overlay has exactly two features: the first with colour
  #FF0000 at [139.0,35.0], the second with colour #0000FF at [135.0,34.0].
\<close>

theorem overlay_scenario_sd:
  "siteGeoJSON ul True (Some \<lparr>realTimeData = Some \<lparr>intensity = Some (lit ''sd''), timestamp = ts\<rparr>\<rparr>)
     [(35.0, 139.0), (34.0, 135.0)] =
   \<lparr>ctype = ''FeatureCollection'',
    features =
      [\<lparr>ftype = ''Feature'',
        geometry = \<lparr>gtype = ''Point'', coordinates = [139.0, 35.0]\<rparr>,
        properties = \<lparr>color = lit ''#FF0000'', radius = 3\<rparr>\<rparr>,
       \<lparr>ftype = ''Feature'',
        geometry = \<lparr>gtype = ''Point'', coordinates = [135.0, 34.0]\<rparr>,
        properties = \<lparr>color = lit ''#0000FF'', radius = 3\<rparr>\<rparr>]\<rparr>"
  by (simp add: siteGeoJSON_def falsy_def intensityOf_def lit_def siteLoop.simps charAt_def
        convertStringToColor_def toLowerCase_def asciiLower_def colorList_def)

theorem overlay_scenario_sd_witness:
  "features (siteGeoJSON (\<lambda>s. s) True
      (Some \<lparr>realTimeData = Some \<lparr>intensity = Some (lit ''sd''), timestamp = None\<rparr>\<rparr>)
      [(35.0, 139.0), (34.0, 135.0)]) =
      [\<lparr>ftype = ''Feature'',
        geometry = \<lparr>gtype = ''Point'', coordinates = [139.0, 35.0]\<rparr>,
        properties = \<lparr>color = lit ''#FF0000'', radius = 3\<rparr>\<rparr>,
       \<lparr>ftype = ''Feature'',
        geometry = \<lparr>gtype = ''Point'', coordinates = [135.0, 34.0]\<rparr>,
        properties = \<lparr>color = lit ''#0000FF'', radius = 3\<rparr>\<rparr>]"
  using overlay_scenario_sd [of "\<lambda>s. s" None] by simp

text \<open>
  C6. The overlay is a function of the enabled flag, the snapshot and the station list
  alone (the body reads nothing else but the constant colour table): two invocations
  with identical inputs give equal feature collections.
\<close>

theorem overlay_deterministic:
  assumes "en = en'" and "kmoni = kmoni'" and "S = S'"
  shows "siteGeoJSON ul en kmoni S = siteGeoJSON ul en' kmoni' S'"
  using assms by simp

theorem overlay_deterministic_witness:
  "siteGeoJSON (\<lambda>s. s) True (Some \<lparr>realTimeData = Some \<lparr>intensity = Some (lit ''sd''), timestamp = None\<rparr>\<rparr>)
       [(35, 139), (34, 135)]
   = siteGeoJSON (\<lambda>s. s) True (Some \<lparr>realTimeData = Some \<lparr>intensity = Some (lit ''sd''), timestamp = None\<rparr>\<rparr>)
       [(35, 139), (34, 135)]"
  using overlay_deterministic [OF refl refl refl] .


text \<open>
  C10. The test that skips an index compares with the lower-case letters only. With the
  monitor enabled, an upper-case \<open>A\<close>, \<open>B\<close> or \<open>C\<close> at an index \<open>i\<close> within range makes
  the overlay contain a feature for station \<open>i\<close> (at the position given by the number of
  emitted indices below \<open>i\<close>), with the fully transparent colour #00000000.
\<close>

theorem uppercase_abc_emitted_transparent:
  assumes "en" and "intensityOf kmoni = Some K"
    and "i < length S" and "i < length K" and "K ! i \<in> {0x41, 0x42, 0x43}"
  shows "card {j. j < i \<and> K ! j \<notin> {0x61, 0x62, 0x63}} < length (features (siteGeoJSON ul en kmoni S))
       \<and> features (siteGeoJSON ul en kmoni S) ! card {j. j < i \<and> K ! j \<notin> {0x61, 0x62, 0x63}} =
           \<lparr>ftype = ''Feature'',
            geometry = \<lparr>gtype = ''Point'', coordinates = [snd (S ! i), fst (S ! i)]\<rparr>,
            properties = \<lparr>color = lit ''#00000000'', radius = 3\<rparr>\<rparr>"
proof -
  let ?P = "\<lambda>j. K ! j \<notin> noData"
  let ?n = "card {j. j < i \<and> K ! j \<notin> {0x61, 0x62, 0x63}}"
  have keep: "K ! i \<notin> noData" using assms(5) by (auto simp add: noData_def)
  have n: "?n = length (filter ?P [0..<i])"
    by (simp add: length_filter_below noData_def)
  have e: "emitted S K = filter ?P [0..<i] @ i # filter ?P [Suc i..<min (length S) (length K)]"
    using emitted_split[OF assms(3,4) keep] .
  have lt: "?n < length (emitted S K)" unfolding n e by simp
  have at: "emitted S K ! ?n = i" unfolding n e by (simp add: nth_append)
  have f: "features (siteGeoJSON ul en kmoni S) = map (featureAt ul S K) (emitted S K)"
    using features_eq[OF assms(1,2)] .
  have "features (siteGeoJSON ul en kmoni S) ! ?n = featureAt ul S K i"
    using lt at by (simp add: f)
  then show ?thesis using lt upper_abc_color[OF assms(5)] by (simp add: f featureAt_def)
qed

theorem uppercase_abc_emitted_transparent_witness:
  "features (siteGeoJSON (\<lambda>s. s) True
      (Some \<lparr>realTimeData = Some \<lparr>intensity = Some (lit ''saB''), timestamp = None\<rparr>\<rparr>)
      [(35, 139), (34, 135), (36, 140)]) ! 1 =
     \<lparr>ftype = ''Feature'',
      geometry = \<lparr>gtype = ''Point'', coordinates = [140, 36]\<rparr>,
      properties = \<lparr>color = lit ''#00000000'', radius = 3\<rparr>\<rparr>"
proof -
  let ?K = "lit ''saB''"
  let ?S = "[(35, 139), (34, 135), (36, 140)] :: PointList"
  let ?k = "Some \<lparr>realTimeData = Some \<lparr>intensity = Some ?K, timestamp = None\<rparr>\<rparr>"
  have h2: "intensityOf ?k = Some ?K" by (simp add: intensityOf_def)
  have h3: "2 < length ?S" by simp
  have h4: "2 < length ?K" by (simp add: lit_def)
  have h5: "?K ! 2 \<in> {0x41, 0x42, 0x43}" by (simp add: lit_def)
  have "{j. j < (2::nat) \<and> ?K ! j \<notin> {0x61, 0x62, 0x63}} = {0}"
    by (auto simp add: less_2_cases_iff lit_def)
  then have c: "card {j. j < (2::nat) \<and> ?K ! j \<notin> {0x61, 0x62, 0x63}} = 1" by simp
  have s: "snd (?S ! 2) = 140" "fst (?S ! 2) = 36" by simp_all
  show ?thesis
    using uppercase_abc_emitted_transparent [OF TrueI h2 h3 h4 h5, of "\<lambda>s. s"]
    unfolding c s by simp
qed


section \<open>Properties of the poller\<close>

lemmas poller_defs = fetchKyoshinMonitorData_def resumeFetch_def resumeJson_def timeoutFires_def
  animationFrame_def unmount_def finallyClause_def catchClause_def mount_def initialShared_def
  inFlight_def Let_def

lemma tick_skip:
  "now - lastFetchTime inst < 500 \<Longrightarrow> fetchKyoshinMonitorData (Some now) (inst, w) = (inst, w)"
  by (simp add: fetchKyoshinMonitorData_def)

lemma tick_cases:
  "fetchKyoshinMonitorData t (inst, w) = (inst, w)
   \<or> (\<exists>now. t = Some now \<and> now \<noteq> 0 \<and> 500 \<le> now - lastFetchTime inst
        \<and> lastFetchTime (fst (fetchKyoshinMonitorData t (inst, w))) = now
        \<and> lastFetchedTime (snd (fetchKyoshinMonitorData t (inst, w))) = now
        \<and> requests (snd (fetchKyoshinMonitorData t (inst, w))) =
            requests w @ [(nextController w, now - 2000)])"
  by (cases t) (auto simp add: fetchKyoshinMonitorData_def Let_def split: option.splits)

lemma step_keeps_lastFetchTime:
  "\<not> isTick e \<Longrightarrow> lastFetchTime (fst (step e s)) = lastFetchTime (fst s)"
  by (cases e; cases s)
     (auto simp add: resumeFetch_def resumeJson_def timeoutFires_def animationFrame_def unmount_def
        finallyClause_def catchClause_def Let_def split: option.splits sum.splits)

lemma run_keeps_lastFetchTime:
  "\<forall>e \<in> set es. \<not> isTick e \<Longrightarrow> lastFetchTime (fst (run es s)) = lastFetchTime (fst s)"
  by (induction es arbitrary: s) (simp_all add: step_keeps_lastFetchTime)

lemma tick_proceeds:
  "now \<noteq> 0 \<Longrightarrow> 500 \<le> now - lastFetchTime (fst s) \<Longrightarrow>
   requests (snd (fetchKyoshinMonitorData (Some now) s)) = requests (snd s) @ [(nextController (snd s), now - 2000)]"
  by (cases s) (auto simp add: fetchKyoshinMonitorData_def Let_def split: option.splits)

lemma resumeFetch_returns: "\<exists>s'. resumeFetch c res s = Inr s'"
  by (cases s) (auto simp add: resumeFetch_def Let_def split: sum.splits)

lemma resumeJson_returns: "\<exists>s'. resumeJson c jres s = Inr s'"
  by (cases s) (auto simp add: resumeJson_def Let_def split: sum.splits)

lemma resumeFetch_keeps:
  assumes "resumeFetch c res s = Inr s'"
  shows "kmoniData (fst s') = kmoniData (fst s) \<and> frames (fst s') = frames (fst s)
         \<and> lastFetchTime (fst s') = lastFetchTime (fst s)"
  using assms
  by (cases s) (auto simp add: resumeFetch_def finallyClause_def catchClause_def Let_def
                  split: sum.splits if_splits)

lemma resumeJson_keeps:
  assumes "resumeJson c jres s = Inr s'"
  shows "kmoniData (fst s') = kmoniData (fst s) \<and> lastFetchTime (fst s') = lastFetchTime (fst s)"
  using assms
  by (cases s) (auto simp add: resumeJson_def finallyClause_def catchClause_def Let_def
                  split: sum.splits if_splits)

lemma resumeJson_failure_keeps_frames:
  assumes "resumeJson c jres s = Inr s'" and "c \<in> aborted (snd s) \<or> (\<exists>err. jres = Inl err)"
  shows "frames (fst s') = frames (fst s)"
  using assms
  by (cases s) (auto simp add: resumeJson_def finallyClause_def catchClause_def Let_def
                  split: sum.splits if_splits)

lemma timeoutFires_keeps:
  "kmoniData (fst (timeoutFires c s)) = kmoniData (fst s) \<and> frames (fst (timeoutFires c s)) = frames (fst s)
   \<and> lastFetchTime (fst (timeoutFires c s)) = lastFetchTime (fst s)"
  by (cases s) (auto simp add: timeoutFires_def Let_def split: option.splits)

lemma resumeFetch_failure_over:
  assumes "resumeFetch c res s = Inr s'"
    and "(c, AwaitFetch) \<in> set (suspended (fst s))"
    and "c \<in> aborted (snd s) \<or> (\<exists>err. res = Inl err) \<or> res = Inr False"
  shows "c \<notin> fst ` set (suspended (fst s')) \<and> abortController (snd s') = None"
  using assms
  by (cases s) (auto simp add: resumeFetch_def finallyClause_def catchClause_def Let_def
                  split: sum.splits if_splits)

lemma resumeJson_failure_over:
  assumes "resumeJson c jres s = Inr s'"
    and "(c, AwaitJson) \<in> set (suspended (fst s))"
    and "c \<in> aborted (snd s) \<or> (\<exists>err. jres = Inl err)"
  shows "c \<notin> fst ` set (suspended (fst s')) \<and> abortController (snd s') = None"
  using assms
  by (cases s) (auto simp add: resumeJson_def finallyClause_def catchClause_def Let_def
                  split: sum.splits if_splits)

lemma not_suspended_no_resume:
  assumes "c \<notin> fst ` set (suspended (fst s))"
  shows "resumeFetch c res s = Inr s \<and> resumeJson c jres s = Inr s"
proof -
  have "(c, AwaitFetch) \<notin> set (suspended (fst s))" "(c, AwaitJson) \<notin> set (suspended (fst s))"
    using assms by force+
  then show ?thesis by (cases s) (simp add: resumeFetch_def resumeJson_def)
qed

section \<open>The claims about the poller\<close>

text \<open>
  C7, as the code has it. A tick compares the application time with the instance's own
  record of its previous fetch attempt, the ref \<open>lastFetchTime\<close>: when less than 500 ms
  have passed the tick issues no request and changes nothing. The shared timestamp of
  the cache and the ref change only on a tick that issues a request. The ref starts, at
  mount, as the shared timestamp, and while they agree a tick keeps them equal. After a
  tick of an instance that issued a request at \<open>t1\<close>, and any events of that instance
  other than ticks, its tick at a time less than 500 ms after \<open>t1\<close> issues no request.
\<close>

theorem rate_limit_per_instance:
  "(now - lastFetchTime inst < 500 \<longrightarrow> fetchKyoshinMonitorData (Some now) (inst, w) = (inst, w))
   \<and> (lastFetchedTime (snd (fetchKyoshinMonitorData t (inst, w))) \<noteq> lastFetchedTime w
        \<or> lastFetchTime (fst (fetchKyoshinMonitorData t (inst, w))) \<noteq> lastFetchTime inst \<longrightarrow>
       (\<exists>now. t = Some now \<and>
          requests (snd (fetchKyoshinMonitorData t (inst, w))) = requests w @ [(nextController w, now - 2000)]))
   \<and> lastFetchTime (mount w) = lastFetchedTime w
   \<and> (lastFetchTime inst = lastFetchedTime w \<longrightarrow>
        lastFetchTime (fst (fetchKyoshinMonitorData t (inst, w))) =
        lastFetchedTime (snd (fetchKyoshinMonitorData t (inst, w))))
   \<and> (fetchKyoshinMonitorData (Some t1) (inst, w) \<noteq> (inst, w) \<and> (\<forall>e \<in> set es. \<not> isTick e) \<and> t2 - t1 < 500 \<longrightarrow>
        fetchKyoshinMonitorData (Some t2) (run es (fetchKyoshinMonitorData (Some t1) (inst, w))) =
        run es (fetchKyoshinMonitorData (Some t1) (inst, w)))"
proof (intro conjI impI)
  assume "now - lastFetchTime inst < 500"
  then show "fetchKyoshinMonitorData (Some now) (inst, w) = (inst, w)" by (rule tick_skip)
next
  assume "lastFetchedTime (snd (fetchKyoshinMonitorData t (inst, w))) \<noteq> lastFetchedTime w
        \<or> lastFetchTime (fst (fetchKyoshinMonitorData t (inst, w))) \<noteq> lastFetchTime inst"
  then have "fetchKyoshinMonitorData t (inst, w) \<noteq> (inst, w)" by auto
  then show "\<exists>now. t = Some now \<and>
          requests (snd (fetchKyoshinMonitorData t (inst, w))) = requests w @ [(nextController w, now - 2000)]"
    using tick_cases[of t inst w] by blast
next
  show "lastFetchTime (mount w) = lastFetchedTime w" by (simp add: mount_def)
next
  assume "lastFetchTime inst = lastFetchedTime w"
  then show "lastFetchTime (fst (fetchKyoshinMonitorData t (inst, w))) =
        lastFetchedTime (snd (fetchKyoshinMonitorData t (inst, w)))"
    using tick_cases[of t inst w] by auto
next
  assume h: "fetchKyoshinMonitorData (Some t1) (inst, w) \<noteq> (inst, w) \<and> (\<forall>e \<in> set es. \<not> isTick e) \<and> t2 - t1 < 500"
  let ?s = "fetchKyoshinMonitorData (Some t1) (inst, w)"
  have "lastFetchTime (fst ?s) = t1" using h tick_cases[of "Some t1" inst w] by auto
  then have "lastFetchTime (fst (run es ?s)) = t1" using h run_keeps_lastFetchTime[of es ?s] by simp
  then have "t2 - lastFetchTime (fst (run es ?s)) < 500" using h by simp
  then show "fetchKyoshinMonitorData (Some t2) (run es ?s) = run es ?s"
    using tick_skip[of t2 "fst (run es ?s)" "snd (run es ?s)"] by simp
qed

theorem rate_limit_per_instance_witness:
  "fetchKyoshinMonitorData (Some 300) (mount initialShared, initialShared) = (mount initialShared, initialShared)
   \<and> fetchKyoshinMonitorData (Some 10400)
         (run [FetchSettles 0 (Inr True)]
            (fetchKyoshinMonitorData (Some 10000) (mount initialShared, initialShared)))
     = run [FetchSettles 0 (Inr True)]
            (fetchKyoshinMonitorData (Some 10000) (mount initialShared, initialShared))"
  using rate_limit_per_instance [of 300 "mount initialShared" initialShared "Some 10000" 10000
          "[FetchSettles 0 (Inr True)]" 10400]
  by (simp add: poller_defs)

text \<open>
  C7 as stated compares with the timestamp shared across mounts. Two instances are
  mounted while the shared timestamp is 0; the first ticks at 10000 and records 10000 in
  the cache; the second ticks at 10100, 100 ms after the shared record, and issues a
  request all the same, since its own ref is still 0.
\<close>

theorem rate_limit_shared_timestamp_counterexample:
  "\<not> (10100 - lastFetchedTime (snd (fetchKyoshinMonitorData (Some 10000) (mount initialShared, initialShared))) < 500
       \<longrightarrow> requests (snd (fetchKyoshinMonitorData (Some 10100)
                  (mount initialShared,
                   snd (fetchKyoshinMonitorData (Some 10000) (mount initialShared, initialShared)))))
           = requests (snd (fetchKyoshinMonitorData (Some 10000) (mount initialShared, initialShared))))"
  by (simp add: poller_defs)

text \<open>
  C8. The code at a run where responses take longer than the tick period: the tick at
  10000 issues request 0; the tick at 11000 aborts it and issues request 1; the aborted
  call resumes and its \<open>finally\<close> clause stores null in the shared handle, which by then
  holds the controller of request 1; the tick at 12000 finds the handle empty, aborts
  nothing and issues request 2. Requests 1 and 2 are in flight together. When request 2
  is answered first and request 1 afterwards, the snapshot of the older request 1
  replaces the one of request 2.
\<close>

theorem superseded_request_not_aborted:
  "abortController (snd (run [Tick (Some 10000), Tick (Some 11000)]
               (mount initialShared, initialShared))) = Some 1
   \<and> abortController (snd (run [Tick (Some 10000), Tick (Some 11000), FetchSettles 0 (Inl AbortError)]
               (mount initialShared, initialShared))) = None
   \<and> suspended (fst (run [Tick (Some 10000), Tick (Some 11000), FetchSettles 0 (Inl AbortError)]
               (mount initialShared, initialShared))) = [(1, AwaitFetch)]
   \<and> inFlight (run [Tick (Some 10000), Tick (Some 11000), FetchSettles 0 (Inl AbortError), Tick (Some 12000)]
               (mount initialShared, initialShared)) = [1, 2]
   \<and> requests (snd (run [Tick (Some 10000), Tick (Some 11000), FetchSettles 0 (Inl AbortError),
                          Tick (Some 12000)]
               (mount initialShared, initialShared))) = [(0, 8000), (1, 9000), (2, 10000)]
   \<and> kmoniData (fst (run [Tick (Some 10000), Tick (Some 11000), FetchSettles 0 (Inl AbortError),
                          Tick (Some 12000),
                          FetchSettles 2 (Inr True),
                          JsonSettles 2 (Inr \<lparr>realTimeData = Some \<lparr>intensity = Some (lit ''s''), timestamp = None\<rparr>\<rparr>),
                          AnimationFrame,
                          FetchSettles 1 (Inr True),
                          JsonSettles 1 (Inr \<lparr>realTimeData = Some \<lparr>intensity = Some (lit ''d''), timestamp = None\<rparr>\<rparr>),
                          AnimationFrame]
               (mount initialShared, initialShared)))
     = Some \<lparr>realTimeData = Some \<lparr>intensity = Some (lit ''d''), timestamp = None\<rparr>\<rparr>"
  by (simp add: poller_defs)

theorem superseded_request_not_aborted_witness:
  "length (inFlight (run [Tick (Some 10000), Tick (Some 11000), FetchSettles 0 (Inl AbortError),
                          Tick (Some 12000)]
               (mount initialShared, initialShared))) = 2"
  using superseded_request_not_aborted by simp


text \<open>
  C9. When a call of the fetch routine fails at either \<open>await\<close> (its controller was
  aborted by a later tick or by a timeout, the request or the parsing threw, or the
  response is not ok), the routine ends normally, the snapshot state and the scheduled
  updates of the instance are unchanged, and a later tick that passes the rate limit
  issues its request. The failed call is over: it is no longer suspended, its
  \<open>finally\<close> clause has emptied the shared handle, and no later outcome delivered for
  it, such as the body of a response that was not ok, changes anything. A timeout that
  fires changes neither the snapshot state nor the scheduled updates.
\<close>

theorem fetch_failure_keeps_snapshot:
  assumes fail1: "c \<in> aborted (snd s) \<or> (\<exists>err. res = Inl err) \<or> res = Inr False"
      and fail2: "c \<in> aborted (snd s) \<or> (\<exists>err. jres = Inl err)"
  shows "(\<exists>s'. resumeFetch c res s = Inr s'
            \<and> kmoniData (fst s') = kmoniData (fst s) \<and> frames (fst s') = frames (fst s)
            \<and> ((c, AwaitFetch) \<in> set (suspended (fst s)) \<longrightarrow>
                  c \<notin> fst ` set (suspended (fst s')) \<and> abortController (snd s') = None
                \<and> (\<forall>r j. resumeFetch c r s' = Inr s' \<and> resumeJson c j s' = Inr s'))
            \<and> (\<forall>now. now \<noteq> 0 \<and> 500 \<le> now - lastFetchTime (fst s) \<longrightarrow>
                  requests (snd (fetchKyoshinMonitorData (Some now) s')) =
                  requests (snd s') @ [(nextController (snd s'), now - 2000)]))
       \<and> (\<exists>s'. resumeJson c jres s = Inr s'
            \<and> kmoniData (fst s') = kmoniData (fst s) \<and> frames (fst s') = frames (fst s)
            \<and> ((c, AwaitJson) \<in> set (suspended (fst s)) \<longrightarrow>
                  c \<notin> fst ` set (suspended (fst s')) \<and> abortController (snd s') = None
                \<and> (\<forall>r j. resumeFetch c r s' = Inr s' \<and> resumeJson c j s' = Inr s'))
            \<and> (\<forall>now. now \<noteq> 0 \<and> 500 \<le> now - lastFetchTime (fst s) \<longrightarrow>
                  requests (snd (fetchKyoshinMonitorData (Some now) s')) =
                  requests (snd s') @ [(nextController (snd s'), now - 2000)]))
       \<and> kmoniData (fst (timeoutFires c s)) = kmoniData (fst s)
       \<and> frames (fst (timeoutFires c s)) = frames (fst s)"
proof (intro conjI)
  obtain s' where r: "resumeFetch c res s = Inr s'" using resumeFetch_returns by blast
  have k: "kmoniData (fst s') = kmoniData (fst s)" "frames (fst s') = frames (fst s)"
    "lastFetchTime (fst s') = lastFetchTime (fst s)"
    using resumeFetch_keeps[OF r] by simp_all
  have o: "(c, AwaitFetch) \<in> set (suspended (fst s)) \<longrightarrow>
             c \<notin> fst ` set (suspended (fst s')) \<and> abortController (snd s') = None
           \<and> (\<forall>r j. resumeFetch c r s' = Inr s' \<and> resumeJson c j s' = Inr s')"
  proof
    assume a: "(c, AwaitFetch) \<in> set (suspended (fst s))"
    have g: "c \<notin> fst ` set (suspended (fst s')) \<and> abortController (snd s') = None"
      using resumeFetch_failure_over[OF r a fail1] .
    then show "c \<notin> fst ` set (suspended (fst s')) \<and> abortController (snd s') = None
           \<and> (\<forall>r j. resumeFetch c r s' = Inr s' \<and> resumeJson c j s' = Inr s')"
      using not_suspended_no_resume[of c s'] by blast
  qed
  have t: "\<forall>now. now \<noteq> 0 \<and> 500 \<le> now - lastFetchTime (fst s) \<longrightarrow>
          requests (snd (fetchKyoshinMonitorData (Some now) s')) =
          requests (snd s') @ [(nextController (snd s'), now - 2000)]"
    using tick_proceeds[of _ s'] k(3) by simp
  show "\<exists>s'. resumeFetch c res s = Inr s'
            \<and> kmoniData (fst s') = kmoniData (fst s) \<and> frames (fst s') = frames (fst s)
            \<and> ((c, AwaitFetch) \<in> set (suspended (fst s)) \<longrightarrow>
                  c \<notin> fst ` set (suspended (fst s')) \<and> abortController (snd s') = None
                \<and> (\<forall>r j. resumeFetch c r s' = Inr s' \<and> resumeJson c j s' = Inr s'))
            \<and> (\<forall>now. now \<noteq> 0 \<and> 500 \<le> now - lastFetchTime (fst s) \<longrightarrow>
                  requests (snd (fetchKyoshinMonitorData (Some now) s')) =
                  requests (snd s') @ [(nextController (snd s'), now - 2000)])"
    using r k(1,2) o t by (intro exI[of _ s'] conjI)
next
  obtain s' where r: "resumeJson c jres s = Inr s'" using resumeJson_returns by blast
  have k: "kmoniData (fst s') = kmoniData (fst s)" "lastFetchTime (fst s') = lastFetchTime (fst s)"
    using resumeJson_keeps[OF r] by simp_all
  have f: "frames (fst s') = frames (fst s)" using resumeJson_failure_keeps_frames[OF r fail2] .
  have o: "(c, AwaitJson) \<in> set (suspended (fst s)) \<longrightarrow>
             c \<notin> fst ` set (suspended (fst s')) \<and> abortController (snd s') = None
           \<and> (\<forall>r j. resumeFetch c r s' = Inr s' \<and> resumeJson c j s' = Inr s')"
  proof
    assume a: "(c, AwaitJson) \<in> set (suspended (fst s))"
    have g: "c \<notin> fst ` set (suspended (fst s')) \<and> abortController (snd s') = None"
      using resumeJson_failure_over[OF r a fail2] .
    then show "c \<notin> fst ` set (suspended (fst s')) \<and> abortController (snd s') = None
           \<and> (\<forall>r j. resumeFetch c r s' = Inr s' \<and> resumeJson c j s' = Inr s')"
      using not_suspended_no_resume[of c s'] by blast
  qed
  have t: "\<forall>now. now \<noteq> 0 \<and> 500 \<le> now - lastFetchTime (fst s) \<longrightarrow>
          requests (snd (fetchKyoshinMonitorData (Some now) s')) =
          requests (snd s') @ [(nextController (snd s'), now - 2000)]"
    using tick_proceeds[of _ s'] k(2) by simp
  show "\<exists>s'. resumeJson c jres s = Inr s'
            \<and> kmoniData (fst s') = kmoniData (fst s) \<and> frames (fst s') = frames (fst s)
            \<and> ((c, AwaitJson) \<in> set (suspended (fst s)) \<longrightarrow>
                  c \<notin> fst ` set (suspended (fst s')) \<and> abortController (snd s') = None
                \<and> (\<forall>r j. resumeFetch c r s' = Inr s' \<and> resumeJson c j s' = Inr s'))
            \<and> (\<forall>now. now \<noteq> 0 \<and> 500 \<le> now - lastFetchTime (fst s) \<longrightarrow>
                  requests (snd (fetchKyoshinMonitorData (Some now) s')) =
                  requests (snd s') @ [(nextController (snd s'), now - 2000)])"
    using r k(1) f o t by (intro exI[of _ s'] conjI)
next
  show "kmoniData (fst (timeoutFires c s)) = kmoniData (fst s)" using timeoutFires_keeps by blast
next
  show "frames (fst (timeoutFires c s)) = frames (fst s)" using timeoutFires_keeps by blast
qed

theorem fetch_failure_keeps_snapshot_witness:
  "(\<exists>s'. resumeFetch 1 (Inr False)
            (run [Tick (Some 10000), FetchSettles 0 (Inr True),
                  JsonSettles 0 (Inr \<lparr>realTimeData = Some \<lparr>intensity = Some (lit ''s''), timestamp = None\<rparr>\<rparr>),
                  AnimationFrame, Tick (Some 11000)]
               (mount initialShared, initialShared)) = Inr s'
         \<and> kmoniData (fst s') = Some \<lparr>realTimeData = Some \<lparr>intensity = Some (lit ''s''), timestamp = None\<rparr>\<rparr>
         \<and> 1 \<notin> fst ` set (suspended (fst s'))
         \<and> resumeJson 1 (Inr \<lparr>realTimeData = Some \<lparr>intensity = Some (lit ''d''), timestamp = None\<rparr>\<rparr>) s' = Inr s')
   \<and> (\<exists>s'. resumeJson 1 (Inl OtherError)
            (run [Tick (Some 10000), FetchSettles 0 (Inr True),
                  JsonSettles 0 (Inr \<lparr>realTimeData = Some \<lparr>intensity = Some (lit ''s''), timestamp = None\<rparr>\<rparr>),
                  AnimationFrame, Tick (Some 11000), FetchSettles 1 (Inr True)]
               (mount initialShared, initialShared)) = Inr s'
         \<and> kmoniData (fst s') = Some \<lparr>realTimeData = Some \<lparr>intensity = Some (lit ''s''), timestamp = None\<rparr>\<rparr>
         \<and> 1 \<notin> fst ` set (suspended (fst s')))"
proof -
  let ?snap = "\<lparr>realTimeData = Some \<lparr>intensity = Some (lit ''s''), timestamp = None\<rparr>\<rparr>"
  let ?s0 = "run [Tick (Some 10000), FetchSettles 0 (Inr True), JsonSettles 0 (Inr ?snap),
                  AnimationFrame, Tick (Some 11000)] (mount initialShared, initialShared)"
  let ?s1 = "run [Tick (Some 10000), FetchSettles 0 (Inr True), JsonSettles 0 (Inr ?snap),
                  AnimationFrame, Tick (Some 11000), FetchSettles 1 (Inr True)]
               (mount initialShared, initialShared)"
  have f1: "(1::nat) \<in> aborted (snd ?s0) \<or> (\<exists>err. (Inr False :: Exn + bool) = Inl err)
            \<or> (Inr False :: Exn + bool) = Inr False" by simp
  have f2: "(1::nat) \<in> aborted (snd ?s0) \<or> (\<exists>err. (Inl OtherError :: Exn + KmoniData) = Inl err)" by simp
  have g1: "(1::nat) \<in> aborted (snd ?s1) \<or> (\<exists>err. (Inr False :: Exn + bool) = Inl err)
            \<or> (Inr False :: Exn + bool) = Inr False" by simp
  have g2: "(1::nat) \<in> aborted (snd ?s1) \<or> (\<exists>err. (Inl OtherError :: Exn + KmoniData) = Inl err)" by simp
  have p0: "(1, AwaitFetch) \<in> set (suspended (fst ?s0))" by (simp add: poller_defs)
  have p1: "(1, AwaitJson) \<in> set (suspended (fst ?s1))" by (simp add: poller_defs)
  have k0: "kmoniData (fst ?s0) = Some ?snap" by (simp add: poller_defs)
  have k1: "kmoniData (fst ?s1) = Some ?snap" by (simp add: poller_defs)
  have a: "\<exists>s'. resumeFetch 1 (Inr False) ?s0 = Inr s'
         \<and> kmoniData (fst s') = Some ?snap
         \<and> 1 \<notin> fst ` set (suspended (fst s'))
         \<and> resumeJson 1 (Inr \<lparr>realTimeData = Some \<lparr>intensity = Some (lit ''d''), timestamp = None\<rparr>\<rparr>) s' = Inr s'"
    using fetch_failure_keeps_snapshot [OF f1 f2, THEN conjunct1] p0 k0 by metis
  have b: "\<exists>s'. resumeJson 1 (Inl OtherError) ?s1 = Inr s'
         \<and> kmoniData (fst s') = Some ?snap
         \<and> 1 \<notin> fst ` set (suspended (fst s'))"
    using fetch_failure_keeps_snapshot [OF g1 g2, THEN conjunct2, THEN conjunct1] p1 k1 by metis
  show ?thesis using a b by (rule conjI)
qed

end
